theory Spec2Isabelle
  imports Main "HOL-Library.Multiset"
begin

section \<open>The conversational memory store of the data-storage notebook\<close>

text \<open>
  The notebook defines one class, \<open>ChatDB\<close>, a wrapper of five methods around a
  chromadb collection: \<open>__init__\<close>, \<open>add_conversation_to_db\<close>, \<open>get_all_entries\<close>,
  \<open>clear_db\<close> and \<open>query_db\<close>. Each method is modelled as a function on the
  fields of the object; a method that raises returns \<open>Inl\<close> of the error, next to the
  state the object is left in.
\<close>

subsection \<open>Errors\<close>

text \<open>
  The wrapper raises nothing by itself. Every error is one of its collaborators':
  the embedding provider's (\<open>ConnectionFailure\<close>, \<open>InvalidModel\<close>, \<open>InvalidArgument\<close>),
  or the vector index's (\<open>NotFound\<close>: the collection does not exist;
  \<open>AlreadyExists\<close>: a collection of that name exists; \<open>InvalidArgument\<close>: a rejected
  argument).
\<close>

datatype error = ConnectionFailure | InvalidModel | InvalidArgument | NotFound | AlreadyExists

subsection \<open>Python's \<open>str\<close> on integers\<close>

definition digit_char :: "nat \<Rightarrow> char" where
  "digit_char d = ''0123456789'' ! d"

function str_nat :: "nat \<Rightarrow> string" where
  "str_nat n = (if n < 10 then [digit_char n] else str_nat (n div 10) @ [digit_char (n mod 10)])"
  by pat_completeness auto
termination
  by (relation "measure (\<lambda>n. n)") auto

definition str_int :: "int \<Rightarrow> string" where
  "str_int i = (if i < 0 then CHR ''-'' # str_nat (nat (- i)) else str_nat (nat i))"

text \<open>Reading a decimal numeral back, to show that \<open>str\<close> never maps two counters to one id.\<close>

definition digit_val :: "char \<Rightarrow> nat" where
  "digit_val c = length (takeWhile (\<lambda>d. d \<noteq> c) ''0123456789'')"

definition val_str :: "string \<Rightarrow> nat" where
  "val_str s = foldl (\<lambda>acc c. 10 * acc + digit_val c) 0 s"

subsection \<open>The external collaborators\<close>

text \<open>
  The embedding provider (\<open>OpenAIEmbeddingFunction\<close>) and the vector index
  (chromadb's \<open>PersistentClient\<close>) are libraries the notebook imports. What they compute
  is a parameter of the model:
  \<^item> \<open>embed model text\<close> is the provider's answer for a text under a model identifier,
    a vector or the provider's error;
  \<^item> \<open>distance q v\<close> is the index's distance (cosine) between a query vector and a
    stored one, in any linearly ordered type;
  \<^item> \<open>accepts_name name\<close> says whether the index takes \<open>name\<close> as a collection name.
\<close>

record ('v, 'd) env =
  embed :: "string \<Rightarrow> string \<Rightarrow> error + 'v"
  distance :: "'v \<Rightarrow> 'v \<Rightarrow> 'd"
  accepts_name :: "string \<Rightarrow> bool"

text \<open>
  A stored turn, as the index keeps it: the id, the vector the provider gave for the
  document, the document, and the metadata dictionary (its items, in insertion order).
\<close>

record 'v entry =
  entry_id :: string
  entry_embedding :: 'v
  entry_document :: string
  entry_metadata :: "(string \<times> string) list"

text \<open>A persisted collection: its own metadata and its entries, in insertion order.\<close>

record 'v collection =
  coll_metadata :: "(string \<times> string) list"
  coll_entries :: "'v entry list"

text \<open>What the client at path \<open>./\<close> persists: the collections, by name.\<close>

type_synonym 'v backend = "string \<rightharpoonup> 'v collection"

text \<open>
  The \<open>Collection\<close> object the client hands out: the name of the collection and the
  embedding function bound to it (the model identifier it calls the provider with).
\<close>

record handle =
  coll_name :: string
  coll_embedding_function :: string

text \<open>The dictionary \<open>Collection.get()\<close> returns (the keys the notebook reads).\<close>

record get_result =
  get_ids :: "string list"
  get_metadatas :: "(string \<times> string) list list"
  get_documents :: "string list"

text \<open>
  The dictionary \<open>Collection.query\<close> returns: one inner list per query text, so the
  notebook reads \<open>results["documents"][0]\<close> and \<open>results["distances"][0]\<close>.
\<close>

record 'd query_result =
  query_ids :: "string list list"
  query_distances :: "'d list list"
  query_metadatas :: "(string \<times> string) list list list"
  query_documents :: "string list list"

subsection \<open>The calls of the vector index the wrapper makes\<close>

text \<open>
  Modelled from the spec: the vector index backend (chromadb, imported by the notebook
  and not part of the repository), by the operations of the spec's backend boundary:
  \<open>create_collection\<close>, \<open>add\<close>, \<open>get_all\<close>, \<open>query\<close>, \<open>delete_collection\<close>.
  \<open>client.create_collection\<close> is the library's create-only call (it has a separate
  \<open>get_or_create_collection\<close>, which the notebook does not call): it refuses a name it
  does not accept and a name that is taken.
\<close>

definition create_collection ::
  "('v, 'd) env \<Rightarrow> string \<Rightarrow> string \<Rightarrow> (string \<times> string) list \<Rightarrow> 'v backend
     \<Rightarrow> error + (handle \<times> 'v backend)" where
  "create_collection env name embedding_fn metadata b =
     (if \<not> accepts_name env name then Inl InvalidArgument
      else case b name of
        Some _ \<Rightarrow> Inl AlreadyExists
      | None \<Rightarrow>
          Inr (\<lparr>coll_name = name, coll_embedding_function = embedding_fn\<rparr>,
               b(name \<mapsto> \<lparr>coll_metadata = metadata, coll_entries = []\<rparr>)))"

text \<open>
  Modelled from the spec: the backend's \<open>delete_collection(name)\<close>; a name that is not
  there is an error.
\<close>

definition delete_collection :: "string \<Rightarrow> 'v backend \<Rightarrow> error + 'v backend" where
  "delete_collection name b =
     (case b name of None \<Rightarrow> Inl NotFound | Some _ \<Rightarrow> Inr (b(name := None)))"

text \<open>
  Modelled from the spec: the backend's \<open>add(id, vector, document, metadata)\<close>, for the
  one record the wrapper passes in its singleton lists. The document is embedded first,
  by the handle's embedding function; then the collection is looked up; a record whose
  id is already stored is skipped.
\<close>

definition collection_add ::
  "('v, 'd) env \<Rightarrow> handle \<Rightarrow> string \<Rightarrow> (string \<times> string) list \<Rightarrow> string \<Rightarrow> 'v backend
     \<Rightarrow> error + 'v backend" where
  "collection_add env h doc meta i b =
     (case embed env (coll_embedding_function h) doc of
        Inl e \<Rightarrow> Inl e
      | Inr v \<Rightarrow>
          (case b (coll_name h) of
             None \<Rightarrow> Inl NotFound
           | Some c \<Rightarrow>
               if i \<in> set (map entry_id (coll_entries c)) then Inr b
               else Inr (b(coll_name h \<mapsto> c\<lparr>coll_entries := coll_entries c @
                      [\<lparr>entry_id = i, entry_embedding = v, entry_document = doc,
                        entry_metadata = meta\<rparr>]\<rparr>))))"

text \<open>Modelled from the spec: the backend's \<open>get_all()\<close>, every stored record.\<close>

definition collection_get :: "handle \<Rightarrow> 'v backend \<Rightarrow> error + get_result" where
  "collection_get h b =
     (case b (coll_name h) of
        None \<Rightarrow> Inl NotFound
      | Some c \<Rightarrow>
          Inr \<lparr>get_ids = map entry_id (coll_entries c),
               get_metadatas = map entry_metadata (coll_entries c),
               get_documents = map entry_document (coll_entries c)\<rparr>)"

text \<open>
  Modelled from the spec: the backend's \<open>query(vector, k)\<close>, for the one query text the
  wrapper passes: the k nearest entries, k the smaller of \<open>n_results\<close> and the number
  of stored entries, closest first. The library checks \<open>n_results\<close> before anything
  else and refuses zero and negative numbers; it embeds the query text next and looks
  the collection up last.
\<close>

definition collection_query ::
  "('v, 'd::linorder) env \<Rightarrow> handle \<Rightarrow> string \<Rightarrow> int \<Rightarrow> 'v backend \<Rightarrow> error + 'd query_result" where
  "collection_query env h query_text n_results b =
     (if n_results \<le> 0 then Inl InvalidArgument
      else case embed env (coll_embedding_function h) query_text of
        Inl e \<Rightarrow> Inl e
      | Inr q \<Rightarrow>
          (case b (coll_name h) of
             None \<Rightarrow> Inl NotFound
           | Some c \<Rightarrow>
               (let hits = take (nat n_results)
                             (sort_key (\<lambda>e. distance env q (entry_embedding e)) (coll_entries c))
                in Inr \<lparr>query_ids = [map entry_id hits],
                        query_distances = [map (\<lambda>e. distance env q (entry_embedding e)) hits],
                        query_metadatas = [map entry_metadata hits],
                        query_documents = [map entry_document hits]\<rparr>)))"

subsection \<open>The class \<open>ChatDB\<close>\<close>

text \<open>
  The fields of the object. \<open>client\<close> is the persistent client, that is, the state it
  persists; \<open>embedding_function\<close> is the provider bound to a model identifier.
\<close>

record 'v ChatDB =
  model_name :: string
  client :: "'v backend"
  embedding_function :: string
  chat_db :: handle
  id_counter :: int

text \<open>
  \<^verbatim>\<open>
  def __init__(self, name, model_name="text-embedding-3-small"):
      self.model_name = model_name
      self.client = chromadb.PersistentClient(path="./")
      self.embedding_function = OpenAIEmbeddingFunction(api_key=OPENAI_API_KEY, model_name=model_name)
      self.chat_db = self.client.create_collection(name=name,
          embedding_function=self.embedding_function, metadata={"hnsw:space": "cosine"})
      self.id_counter = 0
  \<close>
  The client opens what is persisted at the path, \<open>b\<close>. Neither the client nor the
  embedding function calls the provider when it is built.
\<close>

definition ChatDB_init ::
  "('v, 'd) env \<Rightarrow> string \<Rightarrow> string \<Rightarrow> 'v backend \<Rightarrow> error + 'v ChatDB" where
  "ChatDB_init env name model b =
     (case create_collection env name model [(''hnsw:space'', ''cosine'')] b of
        Inl e \<Rightarrow> Inl e
      | Inr (h, b') \<Rightarrow>
          Inr \<lparr>model_name = model, client = b', embedding_function = model,
               chat_db = h, id_counter = 0\<rparr>)"

text \<open>
  \<^verbatim>\<open>
  def add_conversation_to_db(self, user_message, ai_message):
      self.chat_db.add(
          documents=[f"User: {user_message}\nAI: {ai_message}"],
          metadatas=[{"user_message": user_message, "ai_message": ai_message}],
          ids=[str(self.id_counter)])
      self.id_counter += 1
  \<close>
\<close>

definition composite_document :: "string \<Rightarrow> string \<Rightarrow> string" where
  "composite_document user_message ai_message =
     ''User: '' @ user_message @ CHR 0x0A # ''AI: '' @ ai_message"

definition turn_metadata :: "string \<Rightarrow> string \<Rightarrow> (string \<times> string) list" where
  "turn_metadata user_message ai_message =
     [(''user_message'', user_message), (''ai_message'', ai_message)]"

definition add_conversation_to_db ::
  "('v, 'd) env \<Rightarrow> string \<Rightarrow> string \<Rightarrow> 'v ChatDB \<Rightarrow> (error + unit) \<times> 'v ChatDB" where
  "add_conversation_to_db env user_message ai_message self =
     (case collection_add env (chat_db self)
             (composite_document user_message ai_message)
             (turn_metadata user_message ai_message)
             (str_int (id_counter self))
             (client self) of
        Inl e \<Rightarrow> (Inl e, self)
      | Inr b' \<Rightarrow> (Inr (), self\<lparr>client := b', id_counter := id_counter self + 1\<rparr>))"

text \<open>
  \<^verbatim>\<open>
  def get_all_entries(self) -> dict:
      return self.chat_db.get()
  \<close>
\<close>

definition get_all_entries :: "'v ChatDB \<Rightarrow> (error + get_result) \<times> 'v ChatDB" where
  "get_all_entries self = (collection_get (chat_db self) (client self), self)"

text \<open>
  \<^verbatim>\<open>
  def clear_db(self, reinitialize=True):
      self.client.delete_collection(self.chat_db.name)
      # re-initialize the database
      if reinitialize:
          self.__init__(self.chat_db.name, self.model_name)
  \<close>
  When \<open>__init__\<close> raises in \<open>create_collection\<close>, the object keeps its handle and its
  counter, and the collection is gone.
\<close>

definition clear_db ::
  "('v, 'd) env \<Rightarrow> bool \<Rightarrow> 'v ChatDB \<Rightarrow> (error + unit) \<times> 'v ChatDB" where
  "clear_db env reinitialize self =
     (case delete_collection (coll_name (chat_db self)) (client self) of
        Inl e \<Rightarrow> (Inl e, self)
      | Inr b' \<Rightarrow>
          if reinitialize then
            (case ChatDB_init env (coll_name (chat_db self)) (model_name self) b' of
               Inl e \<Rightarrow> (Inl e, self\<lparr>client := b', embedding_function := model_name self\<rparr>)
             | Inr self' \<Rightarrow> (Inr (), self'))
          else (Inr (), self\<lparr>client := b'\<rparr>))"

text \<open>
  \<^verbatim>\<open>
  def query_db(self, query_text, n_results=2) -> dict:
      return self.chat_db.query(query_texts=[query_text], n_results=n_results)
  \<close>
\<close>

definition query_db ::
  "('v, 'd::linorder) env \<Rightarrow> string \<Rightarrow> int \<Rightarrow> 'v ChatDB \<Rightarrow> (error + 'd query_result) \<times> 'v ChatDB" where
  "query_db env query_text n_results self =
     (collection_query env (chat_db self) query_text n_results (client self), self)"

subsection \<open>Live and destroyed stores\<close>

text \<open>
  A live store is what \<open>__init__\<close> builds and the methods keep: the handle and the
  object agree on the embedding model, the collection of the handle's name is
  persisted with the cosine metric, and its ids are the counter values handed out so
  far, \<open>str(0)\<close> to \<open>str(id_counter - 1)\<close>, in that order. A destroyed store is one whose
  collection is gone.
\<close>

definition live :: "('v, 'd) env \<Rightarrow> 'v ChatDB \<Rightarrow> bool" where
  "live env self =
     (accepts_name env (coll_name (chat_db self)) \<and>
      coll_embedding_function (chat_db self) = model_name self \<and>
      embedding_function self = model_name self \<and>
      0 \<le> id_counter self \<and>
      (case client self (coll_name (chat_db self)) of
         None \<Rightarrow> False
       | Some c \<Rightarrow>
           coll_metadata c = [(''hnsw:space'', ''cosine'')] \<and>
           map entry_id (coll_entries c) = map str_int [0..id_counter self - 1]))"

definition destroyed :: "'v ChatDB \<Rightarrow> bool" where
  "destroyed self = (client self (coll_name (chat_db self)) = None)"

text \<open>The turns a live store holds.\<close>

definition stored_turns :: "'v ChatDB \<Rightarrow> 'v entry list" where
  "stored_turns self =
     (case client self (coll_name (chat_db self)) of None \<Rightarrow> [] | Some c \<Rightarrow> coll_entries c)"

text \<open>A sequence of \<open>add_conversation_to_db\<close> calls, one per pair, on the same object.\<close>

fun add_all :: "('v, 'd) env \<Rightarrow> (string \<times> string) list \<Rightarrow> 'v ChatDB \<Rightarrow> 'v ChatDB" where
  "add_all env [] self = self"
| "add_all env ((u, a) # turns) self = add_all env turns (snd (add_conversation_to_db env u a self))"

text \<open>The turns of a sequence the provider embeds: the ones its adds store.\<close>

definition embeddable :: "('v, 'd) env \<Rightarrow> 'v ChatDB \<Rightarrow> string \<times> string \<Rightarrow> bool" where
  "embeddable env self t =
     (case embed env (coll_embedding_function (chat_db self))
             (composite_document (fst t) (snd t)) of
        Inl _ \<Rightarrow> False | Inr _ \<Rightarrow> True)"

text \<open>
  A concrete setting for the examples: a provider that maps a text to its length, the
  distance of two lengths, and an index that takes every name.
\<close>

definition env0 :: "(nat, nat) env" where
  "env0 = \<lparr>embed = (\<lambda>m t. Inr (length t)),
           distance = (\<lambda>q v. if q \<le> v then v - q else q - v),
           accepts_name = (\<lambda>n. True)\<rparr>"

text \<open>The same setting with a provider that is down.\<close>

definition env_down :: "(nat, nat) env" where
  "env_down = \<lparr>embed = (\<lambda>m t. Inl ConnectionFailure),
               distance = (\<lambda>q v. if q \<le> v then v - q else q - v),
               accepts_name = (\<lambda>n. True)\<rparr>"

text \<open>
  The store \<open>ChatDB("chat_db", "text-embedding-3-small")\<close> builds on an empty path, the
  three turns of the notebook's scenario, the store after adding them, and that store
  after \<open>clear_db(reinitialize=False)\<close>.
\<close>

definition store0 :: "nat ChatDB" where
  "store0 =
     \<lparr>model_name = ''text-embedding-3-small'',
      client = [''chat_db'' \<mapsto>
                  \<lparr>coll_metadata = [(''hnsw:space'', ''cosine'')], coll_entries = []\<rparr>],
      embedding_function = ''text-embedding-3-small'',
      chat_db = \<lparr>coll_name = ''chat_db'',
                 coll_embedding_function = ''text-embedding-3-small''\<rparr>,
      id_counter = 0\<rparr>"

definition turns3 :: "(string \<times> string) list" where
  "turns3 = [(''Hi, I am Alice'', ''Hello Alice''), (''Need a restaurant'', ''What cuisine?''),
             (''Italian food'', ''What budget?'')]"

definition store3 :: "nat ChatDB" where
  "store3 = add_all env0 turns3 store0"

definition store_destroyed :: "nat ChatDB" where
  "store_destroyed = snd (clear_db env0 False store3)"

section \<open>Decimal numerals\<close>

lemma digit_val_digit_char: "d < 10 \<Longrightarrow> digit_val (digit_char d) = d"
proof -
  assume "d < 10"
  then consider "d = 0" | "d = 1" | "d = 2" | "d = 3" | "d = 4" | "d = 5" | "d = 6"
    | "d = 7" | "d = 8" | "d = 9"
    by (auto simp: less_Suc_eq numeral_eq_Suc)
  then show ?thesis
    by cases (simp_all add: digit_val_def digit_char_def)
qed

lemma val_str_snoc: "val_str (s @ [c]) = 10 * val_str s + digit_val c"
  by (simp add: val_str_def)

lemma val_str_str_nat: "val_str (str_nat n) = n"
proof (induction n rule: str_nat.induct)
  case (1 n)
  show ?case
  proof (cases "n < 10")
    case True
    then show ?thesis
      by (subst str_nat.simps) (simp add: val_str_def digit_val_digit_char)
  next
    case False
    with "1" have "val_str (str_nat (n div 10)) = n div 10"
      by simp
    with False show ?thesis
      by (subst str_nat.simps) (simp add: val_str_snoc digit_val_digit_char)
  qed
qed

lemma str_int_inj_nonneg:
  assumes "0 \<le> i" and "0 \<le> j" and "str_int i = str_int j"
  shows "i = j"
proof -
  from assms have "val_str (str_nat (nat i)) = val_str (str_nat (nat j))"
    by (simp add: str_int_def)
  then have "nat i = nat j"
    by (simp only: val_str_str_nat)
  with assms show ?thesis
    by simp
qed

lemma distinct_str_int_upto: "0 \<le> i \<Longrightarrow> distinct (map str_int [i..j])"
  by (auto simp: distinct_map inj_on_def intro: str_int_inj_nonneg)

section \<open>Live stores\<close>

lemma str_int_fresh:
  assumes "0 \<le> k"
  shows "str_int k \<notin> set (map str_int [0..k - 1])"
proof
  assume "str_int k \<in> set (map str_int [0..k - 1])"
  then obtain j where j: "0 \<le> j" "j \<le> k - 1" "str_int k = str_int j"
    by auto
  with assms have "k = j"
    by (intro str_int_inj_nonneg) auto
  with j show False
    by simp
qed

lemma upto_snoc: "0 \<le> k \<Longrightarrow> [0..k + 1 - 1] = [0..k - 1] @ [k]"
  using upto_rec2 [of 0 k] by simp

lemma str_int_zero: "str_int 0 = ''0''"
  by (simp add: str_int_def digit_char_def)

lemma stored_turns_live:
  "live env self \<Longrightarrow>
   client self (coll_name (chat_db self)) =
     Some \<lparr>coll_metadata = [(''hnsw:space'', ''cosine'')], coll_entries = stored_turns self\<rparr>"
  by (auto simp: live_def stored_turns_def split: option.splits)

lemma stored_ids_live:
  "live env self \<Longrightarrow> map entry_id (stored_turns self) = map str_int [0..id_counter self - 1]"
  by (auto simp: live_def stored_turns_def split: option.splits)

lemma fresh_empty:
  assumes "live env self" and "id_counter self = 0"
  shows "stored_turns self = []"
  using stored_ids_live [OF assms(1)] assms(2) by simp

text \<open>What \<open>add_conversation_to_db\<close> does to a live store whose provider answers.\<close>

lemma add_live:
  assumes "live env self"
    and "embed env (model_name self) (composite_document u a) = Inr v"
  shows "add_conversation_to_db env u a self =
     (Inr (),
      self\<lparr>client := (client self)(coll_name (chat_db self) \<mapsto>
               \<lparr>coll_metadata = [(''hnsw:space'', ''cosine'')],
                coll_entries = stored_turns self @
                  [\<lparr>entry_id = str_int (id_counter self), entry_embedding = v,
                    entry_document = composite_document u a,
                    entry_metadata = turn_metadata u a\<rparr>]\<rparr>),
            id_counter := id_counter self + 1\<rparr>)"
proof -
  from assms(1) have k: "0 \<le> id_counter self"
    and f: "coll_embedding_function (chat_db self) = model_name self"
    by (simp_all add: live_def)
  have fresh: "str_int (id_counter self) \<notin> set (map entry_id (stored_turns self))"
    using str_int_fresh [OF k] stored_ids_live [OF assms(1)] by simp
  show ?thesis
    using assms(2) f fresh stored_turns_live [OF assms(1)]
    by (simp add: add_conversation_to_db_def collection_add_def)
qed

text \<open>\<open>__init__\<close> builds a live store, and every method keeps a live store live.\<close>

lemma live_init:
  assumes "ChatDB_init env name model b = Inr self"
  shows "live env self \<and> id_counter self = 0"
  using assms
  by (auto simp: ChatDB_init_def create_collection_def live_def split: if_splits option.splits)

lemma live_add:
  assumes "live env self"
  shows "live env (snd (add_conversation_to_db env u a self))"
proof (cases "embed env (model_name self) (composite_document u a)")
  case (Inl e)
  with assms have "add_conversation_to_db env u a self = (Inl e, self)"
    by (simp add: add_conversation_to_db_def collection_add_def live_def)
  with assms show ?thesis
    by simp
next
  case (Inr v)
  from assms have k: "0 \<le> id_counter self"
    by (simp add: live_def)
  show ?thesis
    using assms stored_ids_live [OF assms] upto_snoc [OF k]
    by (simp add: add_live [OF assms Inr] live_def)
qed

lemma live_reads:
  "live env self \<Longrightarrow> live env (snd (get_all_entries self))"
  "live env self \<Longrightarrow> live env (snd (query_db env query_text n_results self))"
  by (simp_all add: get_all_entries_def query_db_def)

lemma clear_db_live:
  assumes "live env self"
  shows "clear_db env True self =
     (Inr (),
      self\<lparr>client := (client self)(coll_name (chat_db self) \<mapsto>
               \<lparr>coll_metadata = [(''hnsw:space'', ''cosine'')], coll_entries = []\<rparr>),
           id_counter := 0\<rparr>)"
proof -
  from assms obtain c where c: "client self (coll_name (chat_db self)) = Some c"
    by (auto simp: live_def split: option.splits)
  from assms have a: "accepts_name env (coll_name (chat_db self))"
    and f: "coll_embedding_function (chat_db self) = model_name self"
    and g: "embedding_function self = model_name self"
    by (simp_all add: live_def)
  have h: "\<lparr>coll_name = coll_name (chat_db self), coll_embedding_function = model_name self\<rparr>
             = chat_db self"
    using f by (cases "chat_db self") simp
  show ?thesis
    using c a g h
    by (cases self)
      (simp add: clear_db_def delete_collection_def ChatDB_init_def create_collection_def)
qed

lemma live_clear_db:
  assumes "live env self"
  shows "live env (snd (clear_db env True self))"
  using assms by (simp add: clear_db_live [OF assms] live_def)

lemma get_all_live:
  assumes "live env self"
  shows "get_all_entries self =
    (Inr \<lparr>get_ids = map str_int [0..id_counter self - 1],
          get_metadatas = map entry_metadata (stored_turns self),
          get_documents = map entry_document (stored_turns self)\<rparr>, self)"
  using stored_turns_live [OF assms] stored_ids_live [OF assms]
  by (simp add: get_all_entries_def collection_get_def)

subsection \<open>Sequences of adds\<close>

lemma add_keeps_handle:
  "chat_db (snd (add_conversation_to_db env u a self)) = chat_db self"
  "model_name (snd (add_conversation_to_db env u a self)) = model_name self"
  by (simp_all add: add_conversation_to_db_def split: sum.splits)

lemma embeddable_add:
  "embeddable env (snd (add_conversation_to_db env u a self)) = embeddable env self"
  by (simp add: embeddable_def add_keeps_handle fun_eq_iff)

lemma add_not_embeddable:
  assumes "\<not> embeddable env self (u, a)"
  shows "snd (add_conversation_to_db env u a self) = self"
  using assms
  by (simp add: embeddable_def add_conversation_to_db_def collection_add_def split: sum.splits)

lemma add_embeddable:
  assumes "live env self" and "embeddable env self (u, a)"
  shows "id_counter (snd (add_conversation_to_db env u a self)) = id_counter self + 1"
    and "map entry_document (stored_turns (snd (add_conversation_to_db env u a self))) =
         map entry_document (stored_turns self) @ [composite_document u a]"
    and "map entry_metadata (stored_turns (snd (add_conversation_to_db env u a self))) =
         map entry_metadata (stored_turns self) @ [turn_metadata u a]"
proof -
  from assms obtain v where v: "embed env (model_name self) (composite_document u a) = Inr v"
    by (auto simp: embeddable_def live_def split: sum.splits)
  note eq = add_live [OF assms(1) v]
  show "id_counter (snd (add_conversation_to_db env u a self)) = id_counter self + 1"
    by (simp add: eq)
  show "map entry_document (stored_turns (snd (add_conversation_to_db env u a self))) =
         map entry_document (stored_turns self) @ [composite_document u a]"
    by (simp add: eq stored_turns_def)
  show "map entry_metadata (stored_turns (snd (add_conversation_to_db env u a self))) =
         map entry_metadata (stored_turns self) @ [turn_metadata u a]"
    by (simp add: eq stored_turns_def)
qed

lemma add_all_live:
  assumes "live env self"
  shows "live env (add_all env turns self) \<and>
         id_counter (add_all env turns self) =
           id_counter self + int (length (filter (embeddable env self) turns)) \<and>
         map entry_document (stored_turns (add_all env turns self)) =
           map entry_document (stored_turns self) @
           map (\<lambda>t. composite_document (fst t) (snd t)) (filter (embeddable env self) turns) \<and>
         map entry_metadata (stored_turns (add_all env turns self)) =
           map entry_metadata (stored_turns self) @
           map (\<lambda>t. turn_metadata (fst t) (snd t)) (filter (embeddable env self) turns)"
  using assms
proof (induction turns arbitrary: self)
  case Nil
  then show ?case by simp
next
  case (Cons t turns)
  obtain u a where t: "t = (u, a)" by (cases t)
  let ?s = "snd (add_conversation_to_db env u a self)"
  have live': "live env ?s"
    using Cons.prems by (rule live_add)
  note IH = Cons.IH [OF live', unfolded embeddable_add]
  show ?case
  proof (cases "embeddable env self (u, a)")
    case True
    with IH add_embeddable [OF Cons.prems True] show ?thesis
      by (simp add: t)
  next
    case False
    with IH add_not_embeddable [OF False] show ?thesis
      by (simp add: t)
  qed
qed

subsection \<open>The example stores\<close>

lemma live_store0: "live env0 store0"
  by (simp add: live_def store0_def env0_def)

lemma live_store3: "live env0 store3"
  unfolding store3_def using add_all_live [OF live_store0] by simp

lemma stored_store3: "length (stored_turns store3) = 3"
proof -
  have "length (map entry_document (stored_turns store3)) = 3"
    unfolding store3_def using add_all_live [OF live_store0, of turns3]
    by (simp add: turns3_def embeddable_def env0_def stored_turns_def store0_def)
  then show ?thesis by simp
qed

lemma store_destroyed_eq:
  "clear_db env0 False store3 = (Inr (), store_destroyed)" "destroyed store_destroyed"
proof -
  from live_store3 obtain c where c: "client store3 (coll_name (chat_db store3)) = Some c"
    by (auto simp: live_def split: option.splits)
  then show "clear_db env0 False store3 = (Inr (), store_destroyed)"
    by (simp add: store_destroyed_def clear_db_def delete_collection_def)
  from c show "destroyed store_destroyed"
    by (simp add: store_destroyed_def clear_db_def delete_collection_def destroyed_def)
qed

subsection \<open>Sorting by a key\<close>

lemma map_insort_key: "map f (insort_key f x xs) = insort (f x) (map f xs)"
  by (induction xs) simp_all

lemma map_sort_key: "map f (sort_key f xs) = sort (map f xs)"
  by (induction xs) (simp_all add: map_insort_key)

text \<open>
  The first n elements of a list sorted by a key, with what is left, are the list
  again, and nothing that is left has a smaller key than any of them.
\<close>

lemma nearest_split:
  fixes key :: "'a \<Rightarrow> 'd::linorder"
  shows "\<exists>rest. mset (take n (sort_key key xs) @ rest) = mset xs \<and>
           (\<forall>h\<in>set (take n (sort_key key xs)). \<forall>r\<in>set rest. key h \<le> key r)"
proof -
  let ?s = "sort_key key xs"
  have "sorted (map key (take n ?s @ drop n ?s))"
    by simp
  then have "\<forall>h\<in>set (take n ?s). \<forall>r\<in>set (drop n ?s). key h \<le> key r"
    unfolding map_append sorted_append by auto
  moreover have "mset (take n ?s @ drop n ?s) = mset xs"
    by simp
  ultimately show ?thesis
    by blast
qed

section \<open>The claims\<close>

subsection \<open>Adding a turn\<close>

text \<open>
  Claim C1. For every pair of strings and every live store whose provider embeds the
  document, \<open>add_conversation_to_db\<close> builds the document
  \<open>"User: {user_message}\nAI: {ai_message}"\<close>, persists it with the metadata
  \<open>{user_message, ai_message}\<close> under the id \<open>str(id_counter)\<close>, after the turns
  already stored, and then increments the counter by exactly one.
\<close>

theorem add_conversation_to_db_persists:
  assumes "live env self"
    and "embed env (model_name self) (''User: '' @ u @ CHR 0x0A # ''AI: '' @ a) = Inr v"
  shows "add_conversation_to_db env u a self =
     (Inr (),
      self\<lparr>client := (client self)(coll_name (chat_db self) \<mapsto>
               \<lparr>coll_metadata = [(''hnsw:space'', ''cosine'')],
                coll_entries = stored_turns self @
                  [\<lparr>entry_id = str_int (id_counter self), entry_embedding = v,
                    entry_document = ''User: '' @ u @ CHR 0x0A # ''AI: '' @ a,
                    entry_metadata = [(''user_message'', u), (''ai_message'', a)]\<rparr>]\<rparr>),
            id_counter := id_counter self + 1\<rparr>)"
  using add_live [OF assms(1), of u a v] assms(2)
  by (simp add: composite_document_def turn_metadata_def)

theorem add_conversation_to_db_persists_witness:
  "live env0 store0 \<and>
   add_conversation_to_db env0 ''Hi'' ''Hello'' store0 =
     (Inr (),
      store0\<lparr>client := [''chat_db'' \<mapsto>
                \<lparr>coll_metadata = [(''hnsw:space'', ''cosine'')],
                 coll_entries = [\<lparr>entry_id = ''0'', entry_embedding = 18,
                    entry_document = ''User: Hi'' @ CHR 0x0A # ''AI: Hello'',
                    entry_metadata = [(''user_message'', ''Hi''), (''ai_message'', ''Hello'')]\<rparr>]\<rparr>],
              id_counter := 1\<rparr>)"
proof -
  have e: "embed env0 (model_name store0) (''User: '' @ ''Hi'' @ CHR 0x0A # ''AI: '' @ ''Hello'')
             = Inr 18"
    by (simp add: env0_def)
  have "add_conversation_to_db env0 ''Hi'' ''Hello'' store0 =
     (Inr (),
      store0\<lparr>client := [''chat_db'' \<mapsto>
                \<lparr>coll_metadata = [(''hnsw:space'', ''cosine'')],
                 coll_entries = [\<lparr>entry_id = ''0'', entry_embedding = 18,
                    entry_document = ''User: Hi'' @ CHR 0x0A # ''AI: Hello'',
                    entry_metadata = [(''user_message'', ''Hi''), (''ai_message'', ''Hello'')]\<rparr>]\<rparr>],
              id_counter := 1\<rparr>)"
    using add_conversation_to_db_persists [OF live_store0 e]
    by (simp add: str_int_zero stored_turns_def store0_def)
  with live_store0 show ?thesis
    by (rule conjI)
qed

text \<open>
  Claim C3. When the backend write \<open>add_conversation_to_db\<close> performs (the
  collection's \<open>add\<close> of the composite document, the metadata and the id
  \<open>str(id_counter)\<close>) fails, the call returns that error and leaves the whole object
  as it was: the id counter holds the value it had, and so does everything persisted.
  The increment stands after the write, and the exception passes it by.
\<close>

theorem add_conversation_to_db_failure_no_effect:
  assumes "collection_add env (chat_db self) (''User: '' @ u @ CHR 0x0A # ''AI: '' @ a)
           [(''user_message'', u), (''ai_message'', a)] (str_int (id_counter self))
           (client self) = Inl e"
  shows "add_conversation_to_db env u a self = (Inl e, self) \<and>
         id_counter (snd (add_conversation_to_db env u a self)) = id_counter self \<and>
         client (snd (add_conversation_to_db env u a self)) = client self"
  using assms
  by (simp add: add_conversation_to_db_def composite_document_def turn_metadata_def)

theorem add_conversation_to_db_failure_no_effect_witness:
  "collection_add env_down (chat_db store0) (''User: '' @ ''Hi'' @ CHR 0x0A # ''AI: '' @ ''Hello'')
     [(''user_message'', ''Hi''), (''ai_message'', ''Hello'')] (str_int (id_counter store0))
     (client store0) = Inl ConnectionFailure \<and>
   add_conversation_to_db env_down ''Hi'' ''Hello'' store0 = (Inl ConnectionFailure, store0) \<and>
   id_counter (snd (add_conversation_to_db env_down ''Hi'' ''Hello'' store0)) = id_counter store0 \<and>
   collection_add env0 (chat_db store_destroyed)
     (''User: '' @ ''Hi'' @ CHR 0x0A # ''AI: '' @ ''Hello'')
     [(''user_message'', ''Hi''), (''ai_message'', ''Hello'')] (str_int (id_counter store_destroyed))
     (client store_destroyed) = Inl NotFound \<and>
   add_conversation_to_db env0 ''Hi'' ''Hello'' store_destroyed = (Inl NotFound, store_destroyed)"
proof -
  have f: "collection_add env_down (chat_db store0)
     (''User: '' @ ''Hi'' @ CHR 0x0A # ''AI: '' @ ''Hello'')
     [(''user_message'', ''Hi''), (''ai_message'', ''Hello'')] (str_int (id_counter store0))
     (client store0) = Inl ConnectionFailure"
    by (simp add: collection_add_def env_down_def)
  have g: "collection_add env0 (chat_db store_destroyed)
     (''User: '' @ ''Hi'' @ CHR 0x0A # ''AI: '' @ ''Hello'')
     [(''user_message'', ''Hi''), (''ai_message'', ''Hello'')] (str_int (id_counter store_destroyed))
     (client store_destroyed) = Inl NotFound"
    using store_destroyed_eq(2) by (simp add: collection_add_def env0_def destroyed_def)
  from add_conversation_to_db_failure_no_effect [OF f] add_conversation_to_db_failure_no_effect [OF g] f g show ?thesis
    by simp
qed

text \<open>
  Claim C9. \<open>add_conversation_to_db\<close> checks nothing about its messages. For every pair
  of strings, the empty string and the marker texts \<open>"User: "\<close> and \<open>"AI: "\<close>
  included: when the provider refuses the composite document the call returns the
  provider's error and changes nothing; when the provider embeds it and the collection
  is gone the call returns NotFound and changes nothing; when the provider embeds it
  and the store is live the call succeeds, stores the composite document with its
  metadata and vector under \<open>str(id_counter)\<close> after the turns already stored, and
  increments the counter. Whenever the call fails, the error is the provider's for that
  document or the backend's NotFound: none is the wrapper's own.
\<close>

theorem add_conversation_to_db_no_validation:
  "(\<forall>e. embed env (coll_embedding_function (chat_db self))
            (''User: '' @ u @ CHR 0x0A # ''AI: '' @ a) = Inl e \<longrightarrow>
        add_conversation_to_db env u a self = (Inl e, self)) \<and>
   (\<forall>v. embed env (coll_embedding_function (chat_db self))
            (''User: '' @ u @ CHR 0x0A # ''AI: '' @ a) = Inr v \<and> destroyed self \<longrightarrow>
        add_conversation_to_db env u a self = (Inl NotFound, self)) \<and>
   (\<forall>v. embed env (coll_embedding_function (chat_db self))
            (''User: '' @ u @ CHR 0x0A # ''AI: '' @ a) = Inr v \<and> live env self \<longrightarrow>
        fst (add_conversation_to_db env u a self) = Inr () \<and>
        id_counter (snd (add_conversation_to_db env u a self)) = id_counter self + 1 \<and>
        stored_turns (snd (add_conversation_to_db env u a self)) =
          stored_turns self @
            [\<lparr>entry_id = str_int (id_counter self), entry_embedding = v,
              entry_document = ''User: '' @ u @ CHR 0x0A # ''AI: '' @ a,
              entry_metadata = [(''user_message'', u), (''ai_message'', a)]\<rparr>]) \<and>
   (\<forall>e. fst (add_conversation_to_db env u a self) = Inl e \<longrightarrow>
        embed env (coll_embedding_function (chat_db self))
          (''User: '' @ u @ CHR 0x0A # ''AI: '' @ a) = Inl e \<or>
        (e = NotFound \<and> destroyed self))"
proof -
  let ?doc = "''User: '' @ u @ CHR 0x0A # ''AI: '' @ a"
  have 1: "add_conversation_to_db env u a self = (Inl e, self)"
    if "embed env (coll_embedding_function (chat_db self)) ?doc = Inl e" for e
    using that
    by (simp add: add_conversation_to_db_def collection_add_def composite_document_def)
  have 2: "add_conversation_to_db env u a self = (Inl NotFound, self)"
    if "embed env (coll_embedding_function (chat_db self)) ?doc = Inr v \<and> destroyed self" for v
    using that
    by (simp add: add_conversation_to_db_def collection_add_def composite_document_def
        destroyed_def)
  have 3: "fst (add_conversation_to_db env u a self) = Inr () \<and>
        id_counter (snd (add_conversation_to_db env u a self)) = id_counter self + 1 \<and>
        stored_turns (snd (add_conversation_to_db env u a self)) =
          stored_turns self @
            [\<lparr>entry_id = str_int (id_counter self), entry_embedding = v,
              entry_document = ?doc,
              entry_metadata = [(''user_message'', u), (''ai_message'', a)]\<rparr>]"
    if "embed env (coll_embedding_function (chat_db self)) ?doc = Inr v \<and> live env self" for v
  proof -
    from that have l: "live env self"
      by simp
    then have "coll_embedding_function (chat_db self) = model_name self"
      by (simp add: live_def)
    with that have e: "embed env (model_name self) (composite_document u a) = Inr v"
      by (simp add: composite_document_def)
    show ?thesis
      by (simp add: add_live [OF l e] stored_turns_def composite_document_def
          turn_metadata_def)
  qed
  have 4: "embed env (coll_embedding_function (chat_db self)) ?doc = Inl e \<or>
        (e = NotFound \<and> destroyed self)"
    if "fst (add_conversation_to_db env u a self) = Inl e" for e
    using that
    by (auto simp: add_conversation_to_db_def collection_add_def composite_document_def
        destroyed_def split: sum.splits option.splits if_splits)
  show ?thesis
    using 1 2 3 4 by blast
qed

theorem add_conversation_to_db_no_validation_witness:
  "live env0 store0 \<and>
   fst (add_conversation_to_db env0 [] [] store0) = Inr () \<and>
   id_counter (snd (add_conversation_to_db env0 [] [] store0)) = 1 \<and>
   stored_turns (snd (add_conversation_to_db env0 [] [] store0)) =
     [\<lparr>entry_id = ''0'', entry_embedding = 11,
       entry_document = ''User: '' @ CHR 0x0A # ''AI: '',
       entry_metadata = [(''user_message'', []), (''ai_message'', [])]\<rparr>] \<and>
   stored_turns (snd (add_conversation_to_db env0 ''User: '' ''AI: '' store0)) =
     [\<lparr>entry_id = ''0'', entry_embedding = 21,
       entry_document = ''User: User: '' @ CHR 0x0A # ''AI: AI: '',
       entry_metadata = [(''user_message'', ''User: ''), (''ai_message'', ''AI: '')]\<rparr>] \<and>
   add_conversation_to_db env_down [] [] store0 = (Inl ConnectionFailure, store0) \<and>
   add_conversation_to_db env0 [] [] store_destroyed = (Inl NotFound, store_destroyed)"
proof -
  have k: "id_counter store0 = 0" and t: "stored_turns store0 = []"
    by (simp_all add: store0_def stored_turns_def)
  have e1: "embed env0 (coll_embedding_function (chat_db store0))
              (''User: '' @ [] @ CHR 0x0A # ''AI: '' @ []) = Inr 11 \<and> live env0 store0"
    using live_store0 by (simp add: env0_def)
  have e2: "embed env0 (coll_embedding_function (chat_db store0))
              (''User: '' @ ''User: '' @ CHR 0x0A # ''AI: '' @ ''AI: '') = Inr 21 \<and> live env0 store0"
    using live_store0 by (simp add: env0_def)
  have e3: "embed env_down (coll_embedding_function (chat_db store0))
              (''User: '' @ [] @ CHR 0x0A # ''AI: '' @ []) = Inl ConnectionFailure"
    by (simp add: env_down_def)
  have e4: "embed env0 (coll_embedding_function (chat_db store_destroyed))
              (''User: '' @ [] @ CHR 0x0A # ''AI: '' @ []) = Inr 11 \<and> destroyed store_destroyed"
    using store_destroyed_eq(2) by (simp add: env0_def)
  from add_conversation_to_db_no_validation [of env0 store0 "[]" "[]"] e1 have 1:
    "fst (add_conversation_to_db env0 [] [] store0) = Inr () \<and>
     id_counter (snd (add_conversation_to_db env0 [] [] store0)) = 1 \<and>
     stored_turns (snd (add_conversation_to_db env0 [] [] store0)) =
       [\<lparr>entry_id = ''0'', entry_embedding = 11,
         entry_document = ''User: '' @ CHR 0x0A # ''AI: '',
         entry_metadata = [(''user_message'', []), (''ai_message'', [])]\<rparr>]"
    by (simp add: k t str_int_zero)
  from add_conversation_to_db_no_validation [of env0 store0 "''User: ''" "''AI: ''"] e2 have 2:
    "stored_turns (snd (add_conversation_to_db env0 ''User: '' ''AI: '' store0)) =
     [\<lparr>entry_id = ''0'', entry_embedding = 21,
       entry_document = ''User: User: '' @ CHR 0x0A # ''AI: AI: '',
       entry_metadata = [(''user_message'', ''User: ''), (''ai_message'', ''AI: '')]\<rparr>]"
    by (simp add: k t str_int_zero)
  from add_conversation_to_db_no_validation [of env_down store0 "[]" "[]"] e3 have 3:
    "add_conversation_to_db env_down [] [] store0 = (Inl ConnectionFailure, store0)"
    by blast
  from add_conversation_to_db_no_validation [of env0 store_destroyed "[]" "[]"] e4 have 4:
    "add_conversation_to_db env0 [] [] store_destroyed = (Inl NotFound, store_destroyed)"
    by blast
  from 1 2 3 4 live_store0 show ?thesis
    by simp
qed

subsection \<open>Reading the store\<close>

text \<open>
  Claim C4. After any sequence of \<open>add_conversation_to_db\<close> calls on a store that is
  live with its counter at zero (as it is after \<open>__init__\<close> and after a clear that
  reinitializes), \<open>get_all_entries\<close> returns exactly the turns the sequence added,
  that is, the ones the provider embedded, in order: their ids are
  \<open>str(0), ..., str(n - 1)\<close> for the n turns added, all distinct, and the counter
  stands at n.
\<close>

theorem get_all_entries_after_adds:
  assumes "live env self" and "id_counter self = 0"
  shows "get_all_entries (add_all env turns self) =
     (Inr \<lparr>get_ids = map str_int [0..int (length (filter (embeddable env self) turns)) - 1],
           get_metadatas = map (\<lambda>t. [(''user_message'', fst t), (''ai_message'', snd t)])
                             (filter (embeddable env self) turns),
           get_documents = map (\<lambda>t. ''User: '' @ fst t @ CHR 0x0A # ''AI: '' @ snd t)
                             (filter (embeddable env self) turns)\<rparr>,
      add_all env turns self) \<and>
    distinct (map str_int [0..int (length (filter (embeddable env self) turns)) - 1]) \<and>
    id_counter (add_all env turns self) = int (length (filter (embeddable env self) turns))"
proof -
  note A = add_all_live [OF assms(1), of turns]
  from A have l: "live env (add_all env turns self)" by simp
  have e: "stored_turns self = []"
    using assms by (rule fresh_empty)
  show ?thesis
    using A e assms(2)
    by (simp add: get_all_live [OF l] distinct_str_int_upto composite_document_def
        turn_metadata_def)
qed

theorem get_all_entries_after_adds_witness:
  "live env0 store0 \<and> id_counter store0 = 0 \<and>
   fst (get_all_entries (add_all env0 turns3 store0)) =
     Inr \<lparr>get_ids = [''0'', ''1'', ''2''],
          get_metadatas =
            [[(''user_message'', ''Hi, I am Alice''), (''ai_message'', ''Hello Alice'')],
             [(''user_message'', ''Need a restaurant''), (''ai_message'', ''What cuisine?'')],
             [(''user_message'', ''Italian food''), (''ai_message'', ''What budget?'')]],
          get_documents =
            [''User: Hi, I am Alice'' @ CHR 0x0A # ''AI: Hello Alice'',
             ''User: Need a restaurant'' @ CHR 0x0A # ''AI: What cuisine?'',
             ''User: Italian food'' @ CHR 0x0A # ''AI: What budget?'']\<rparr> \<and>
   id_counter (add_all env0 turns3 store0) = 3"
proof -
  have c: "id_counter store0 = 0"
    by (simp add: store0_def)
  have f: "filter (embeddable env0 store0) turns3 = turns3"
    by (simp add: embeddable_def env0_def turns3_def)
  have u: "map str_int [0..2] = [''0'', ''1'', ''2'']"
    by code_simp
  have l: "int (length turns3) - 1 = 2"
    by (simp add: turns3_def)
  have "fst (get_all_entries (add_all env0 turns3 store0)) =
     Inr \<lparr>get_ids = [''0'', ''1'', ''2''],
          get_metadatas = map (\<lambda>t. [(''user_message'', fst t), (''ai_message'', snd t)]) turns3,
          get_documents = map (\<lambda>t. ''User: '' @ fst t @ CHR 0x0A # ''AI: '' @ snd t) turns3\<rparr> \<and>
   id_counter (add_all env0 turns3 store0) = int (length turns3)"
    using get_all_entries_after_adds [OF live_store0 c, of turns3]
    by (simp only: f l u fst_conv)
  then show ?thesis
    using live_store0 c by (simp add: turns3_def)
qed

text \<open>
  Claim C10. \<open>get_all_entries\<close> and \<open>query_db\<close> are read-only: whatever the store and
  the arguments, and whether they return or raise, the object after the call is the
  object before it, so the id counter and the stored turns are unchanged.
\<close>

theorem reads_leave_store_unchanged:
  "snd (get_all_entries self) = self \<and> snd (query_db env query_text n_results self) = self"
  by (simp add: get_all_entries_def query_db_def)

theorem reads_leave_store_unchanged_witness:
  "snd (get_all_entries store3) = store3 \<and> snd (query_db env0 ''Food'' 3 store3) = store3 \<and>
   stored_turns (snd (query_db env0 ''Food'' 3 store3)) = stored_turns store3"
  using reads_leave_store_unchanged [of store3 env0 "''Food''" 3] by simp

subsection \<open>Construction and clearing\<close>

text \<open>
  Claim C5, as stated, has construction open the named collection when it exists.
  The source calls \<open>create_collection\<close>, which does not open: on a path where
  \<open>chat_db\<close> is persisted, with a provider that answers, \<open>ChatDB("chat_db", ...)\<close>
  raises.
\<close>

theorem ChatDB_init_existing_counterexample:
  "client store3 ''chat_db'' \<noteq> None \<and>
   embed env0 ''text-embedding-3-small'' ''Food'' = Inr 4 \<and>
   ChatDB_init env0 ''chat_db'' ''text-embedding-3-small'' (client store3) = Inl AlreadyExists"
proof -
  from live_store3 have "client store3 (coll_name (chat_db store3)) \<noteq> None"
    by (auto simp: live_def split: option.splits)
  moreover have "coll_name (chat_db store3) = ''chat_db''"
    by (simp add: store3_def turns3_def add_keeps_handle store0_def)
  ultimately have "client store3 ''chat_db'' \<noteq> None"
    by simp
  then show ?thesis
    by (auto simp: ChatDB_init_def create_collection_def env0_def)
qed

text \<open>
  Claim C5, amended. For every name the index accepts and every embedding model,
  constructing a store creates the named collection when no collection of that name
  is persisted, with the cosine metric and no entries, binds the handle to the given
  embedding model and sets the id counter to zero, leaving every other collection as it
  was; when a collection of that name is persisted already, construction fails and
  opens nothing. A construction that succeeds always yields a live, empty store with
  its counter at zero.
\<close>

theorem ChatDB_init_creates:
  "(accepts_name env name \<and> b name = None \<longrightarrow>
      ChatDB_init env name model b =
        Inr \<lparr>model_name = model,
             client = b(name \<mapsto> \<lparr>coll_metadata = [(''hnsw:space'', ''cosine'')],
                                   coll_entries = []\<rparr>),
             embedding_function = model,
             chat_db = \<lparr>coll_name = name, coll_embedding_function = model\<rparr>,
             id_counter = 0\<rparr>) \<and>
   (accepts_name env name \<and> b name \<noteq> None \<longrightarrow>
      ChatDB_init env name model b = Inl AlreadyExists) \<and>
   (\<forall>self. ChatDB_init env name model b = Inr self \<longrightarrow>
      live env self \<and> id_counter self = 0 \<and> stored_turns self = [] \<and>
      (\<forall>other. other \<noteq> name \<longrightarrow> client self other = b other))"
  by (auto simp: ChatDB_init_def create_collection_def live_def stored_turns_def
      split: if_splits option.splits)

theorem ChatDB_init_creates_witness:
  "accepts_name env0 ''chat_db'' \<and>
   ChatDB_init env0 ''chat_db'' ''text-embedding-3-small'' Map.empty = Inr store0 \<and>
   live env0 store0 \<and>
   ChatDB_init env0 ''chat_db'' ''text-embedding-3-small'' (client store0) = Inl AlreadyExists"
proof -
  have a: "accepts_name env0 ''chat_db''"
    by (simp add: env0_def)
  have n: "client store0 ''chat_db'' \<noteq> None"
    by (simp add: store0_def)
  have i: "ChatDB_init env0 ''chat_db'' ''text-embedding-3-small'' Map.empty = Inr store0"
    using ChatDB_init_creates [of env0 "''chat_db''" Map.empty "''text-embedding-3-small''"] a
    by (simp add: store0_def)
  have l: "live env0 store0"
    using ChatDB_init_creates [of env0 "''chat_db''" Map.empty "''text-embedding-3-small''"] i
    by simp
  have "ChatDB_init env0 ''chat_db'' ''text-embedding-3-small'' (client store0)
          = Inl AlreadyExists"
    using ChatDB_init_creates [of env0 "''chat_db''" "client store0" "''text-embedding-3-small''"]
      a n
    by simp
  with a i l show ?thesis
    by simp
qed

text \<open>
  Claim C6. \<open>clear_db(reinitialize=True)\<close> on a live store succeeds and leaves a live
  store with the same handle (name and embedding model) and the same model name,
  whose counter is zero: \<open>get_all_entries\<close> returns nothing, and the next
  \<open>add_conversation_to_db\<close> the provider embeds succeeds and stores its turn under the
  id \<open>"0"\<close>.
\<close>

theorem clear_db_reinitialize:
  assumes "live env self"
  shows "\<exists>s'. clear_db env True self = (Inr (), s') \<and> live env s' \<and>
           chat_db s' = chat_db self \<and> model_name s' = model_name self \<and>
           id_counter s' = 0 \<and> stored_turns s' = [] \<and>
           get_all_entries s' =
             (Inr \<lparr>get_ids = [], get_metadatas = [], get_documents = []\<rparr>, s') \<and>
           (\<forall>u a v. embed env (model_name self)
                       (''User: '' @ u @ CHR 0x0A # ''AI: '' @ a) = Inr v \<longrightarrow>
              fst (add_conversation_to_db env u a s') = Inr () \<and>
              map entry_id (stored_turns (snd (add_conversation_to_db env u a s'))) = [''0''])"
proof -
  let ?s = "self\<lparr>client := (client self)(coll_name (chat_db self) \<mapsto>
               \<lparr>coll_metadata = [(''hnsw:space'', ''cosine'')], coll_entries = []\<rparr>),
           id_counter := 0\<rparr>"
  have l: "live env ?s"
    using assms by (simp add: live_def)
  have t: "stored_turns ?s = []"
    by (simp add: stored_turns_def)
  have "fst (add_conversation_to_db env u a ?s) = Inr () \<and>
        map entry_id (stored_turns (snd (add_conversation_to_db env u a ?s))) = [''0'']"
    if "embed env (model_name self) (''User: '' @ u @ CHR 0x0A # ''AI: '' @ a) = Inr v" for u a v
  proof -
    from that have "embed env (model_name ?s) (composite_document u a) = Inr v"
      by (simp add: composite_document_def)
    from add_live [OF l this] show ?thesis
      by (simp add: stored_turns_def str_int_zero)
  qed
  then show ?thesis
    using clear_db_live [OF assms] l get_all_live [OF l] t
    by (intro exI [of _ ?s]) simp
qed

theorem clear_db_reinitialize_witness:
  "live env0 store3 \<and>
   fst (clear_db env0 True store3) = Inr () \<and>
   live env0 (snd (clear_db env0 True store3)) \<and>
   id_counter (snd (clear_db env0 True store3)) = 0 \<and>
   fst (get_all_entries (snd (clear_db env0 True store3))) =
     Inr \<lparr>get_ids = [], get_metadatas = [], get_documents = []\<rparr> \<and>
   map entry_id (stored_turns
     (snd (add_conversation_to_db env0 ''Hi'' ''Hello'' (snd (clear_db env0 True store3)))))
     = [''0'']"
proof -
  from clear_db_reinitialize [OF live_store3] obtain s' where
    c: "clear_db env0 True store3 = (Inr (), s')" and l: "live env0 s'"
    and k: "id_counter s' = 0"
    and g: "get_all_entries s' =
              (Inr \<lparr>get_ids = [], get_metadatas = [], get_documents = []\<rparr>, s')"
    and a: "\<forall>u a v. embed env0 (model_name store3)
                       (''User: '' @ u @ CHR 0x0A # ''AI: '' @ a) = Inr v \<longrightarrow>
              fst (add_conversation_to_db env0 u a s') = Inr () \<and>
              map entry_id (stored_turns (snd (add_conversation_to_db env0 u a s'))) = [''0'']"
    by blast
  have e: "embed env0 (model_name store3) (''User: '' @ ''Hi'' @ CHR 0x0A # ''AI: '' @ ''Hello'')
             = Inr 18"
    by (simp add: env0_def)
  from a e have
    "map entry_id (stored_turns (snd (add_conversation_to_db env0 ''Hi'' ''Hello'' s'))) = [''0'']"
    by blast
  with c l k g live_store3 show ?thesis
    by simp
qed

subsection \<open>Querying\<close>

text \<open>
  Claim C2, as stated, speaks of every \<open>n_results\<close>. \<open>query_db\<close> passes the number
  on unchecked, and the index refuses zero (and negative numbers): on the live store
  of three turns, with a provider that answers, \<open>query_db("Food", 0)\<close> raises instead of
  returning \<open>min(0, 3) = 0\<close> results.
\<close>

theorem query_db_zero_results_counterexample:
  "live env0 store3 \<and> embed env0 (model_name store3) ''Food'' = Inr 4 \<and>
   length (stored_turns store3) = 3 \<and>
   query_db env0 ''Food'' 0 store3 = (Inl InvalidArgument, store3)"
  using live_store3 stored_store3
  by (simp add: query_db_def collection_query_def env0_def)

text \<open>
  Claim C2, amended. For every \<open>n_results\<close> of at least one and every query text the
  provider embeds, \<open>query_db\<close> on a live store holding k turns returns, for its one
  query text, the ids, distances, metadata dictionaries and documents of one list of
  stored turns, the hits, position by position. The hits are \<open>min(n_results, k)\<close> of
  the stored turns (with the turns left out they are the stored turns again), each
  reported with its own distance to the query, in ascending order of distance, and no
  turn left out is closer to the query than a hit. When \<open>n_results\<close> exceeds k every
  stored turn is a hit and the call does not fail.
\<close>

theorem query_db_nearest:
  assumes "live env self" and "1 \<le> n_results"
    and "embed env (model_name self) query_text = Inr q"
  shows "\<exists>hits rest.
           query_db env query_text n_results self =
             (Inr \<lparr>query_ids = [map entry_id hits],
                   query_distances = [map (\<lambda>e. distance env q (entry_embedding e)) hits],
                   query_metadatas = [map entry_metadata hits],
                   query_documents = [map entry_document hits]\<rparr>, self) \<and>
           mset (hits @ rest) = mset (stored_turns self) \<and>
           (\<forall>h\<in>set hits. \<forall>r\<in>set rest.
              distance env q (entry_embedding h) \<le> distance env q (entry_embedding r)) \<and>
           sorted (map (\<lambda>e. distance env q (entry_embedding e)) hits) \<and>
           int (length hits) = min n_results (int (length (stored_turns self))) \<and>
           map (\<lambda>e. distance env q (entry_embedding e)) hits =
             take (nat n_results)
               (sort (map (\<lambda>e. distance env q (entry_embedding e)) (stored_turns self))) \<and>
           (n_results > int (length (stored_turns self)) \<longrightarrow>
              length hits = length (stored_turns self) \<and> rest = [])"
proof -
  let ?key = "\<lambda>e. distance env q (entry_embedding e)"
  let ?hits = "take (nat n_results) (sort_key ?key (stored_turns self))"
  from assms(1) have f: "coll_embedding_function (chat_db self) = model_name self"
    by (simp add: live_def)
  have eq: "query_db env query_text n_results self =
      (Inr \<lparr>query_ids = [map entry_id ?hits], query_distances = [map ?key ?hits],
            query_metadatas = [map entry_metadata ?hits],
            query_documents = [map entry_document ?hits]\<rparr>, self)"
    using assms(2,3) f stored_turns_live [OF assms(1)]
    by (simp add: query_db_def collection_query_def Let_def)
  have d: "map ?key ?hits = take (nat n_results) (sort (map ?key (stored_turns self)))"
    by (simp only: take_map [symmetric] map_sort_key)
  have s: "sorted (map ?key ?hits)"
    unfolding d by simp
  have len: "int (length ?hits) = min n_results (int (length (stored_turns self)))"
    using assms(2) by simp
  from nearest_split [of "nat n_results" ?key "stored_turns self"] obtain rest where
    m: "mset (?hits @ rest) = mset (stored_turns self)"
    and near: "\<forall>h\<in>set ?hits. \<forall>r\<in>set rest. ?key h \<le> ?key r"
    by blast
  have r: "rest = []" if "n_results > int (length (stored_turns self))"
  proof -
    from that have "length ?hits = length (stored_turns self)"
      by simp
    moreover from m have "length (?hits @ rest) = length (stored_turns self)"
      by (metis size_mset)
    ultimately show ?thesis
      by simp
  qed
  have t: "n_results > int (length (stored_turns self)) \<longrightarrow>
             length ?hits = length (stored_turns self) \<and> rest = []"
    using r by simp
  show ?thesis
    using eq m near s len d t by blast
qed

theorem query_db_nearest_witness:
  "live env0 store3 \<and> (1::int) \<le> 5 \<and> embed env0 (model_name store3) ''Food'' = Inr 4 \<and>
   (\<exists>hits. query_db env0 ''Food'' 5 store3 =
        (Inr \<lparr>query_ids = [map entry_id hits],
              query_distances = [map (\<lambda>e. distance env0 4 (entry_embedding e)) hits],
              query_metadatas = [map entry_metadata hits],
              query_documents = [map entry_document hits]\<rparr>, store3) \<and>
      mset hits = mset (stored_turns store3) \<and> length hits = 3 \<and>
      sorted (map (\<lambda>e. distance env0 4 (entry_embedding e)) hits)) \<and>
   fst (query_db env0 ''Food'' 5 store3) =
     Inr \<lparr>query_ids = [[''2'', ''0'', ''1'']],
          query_distances = [[31, 32, 37]],
          query_metadatas =
            [[[(''user_message'', ''Italian food''), (''ai_message'', ''What budget?'')],
              [(''user_message'', ''Hi, I am Alice''), (''ai_message'', ''Hello Alice'')],
              [(''user_message'', ''Need a restaurant''), (''ai_message'', ''What cuisine?'')]]],
          query_documents =
            [[''User: Italian food'' @ CHR 0x0A # ''AI: What budget?'',
              ''User: Hi, I am Alice'' @ CHR 0x0A # ''AI: Hello Alice'',
              ''User: Need a restaurant'' @ CHR 0x0A # ''AI: What cuisine?'']]\<rparr>"
proof -
  have e: "embed env0 (model_name store3) ''Food'' = Inr 4"
    by (simp add: env0_def)
  have n: "(1::int) \<le> 5"
    by simp
  have v: "fst (query_db env0 ''Food'' 5 store3) =
     Inr \<lparr>query_ids = [[''2'', ''0'', ''1'']],
          query_distances = [[31, 32, 37]],
          query_metadatas =
            [[[(''user_message'', ''Italian food''), (''ai_message'', ''What budget?'')],
              [(''user_message'', ''Hi, I am Alice''), (''ai_message'', ''Hello Alice'')],
              [(''user_message'', ''Need a restaurant''), (''ai_message'', ''What cuisine?'')]]],
          query_documents =
            [[''User: Italian food'' @ CHR 0x0A # ''AI: What budget?'',
              ''User: Hi, I am Alice'' @ CHR 0x0A # ''AI: Hello Alice'',
              ''User: Need a restaurant'' @ CHR 0x0A # ''AI: What cuisine?'']]\<rparr>"
    by code_simp
  from query_db_nearest [OF live_store3 n e] have
    "\<exists>hits. query_db env0 ''Food'' 5 store3 =
        (Inr \<lparr>query_ids = [map entry_id hits],
              query_distances = [map (\<lambda>e. distance env0 4 (entry_embedding e)) hits],
              query_metadatas = [map entry_metadata hits],
              query_documents = [map entry_document hits]\<rparr>, store3) \<and>
      mset hits = mset (stored_turns store3) \<and> length hits = 3 \<and>
      sorted (map (\<lambda>e. distance env0 4 (entry_embedding e)) hits)"
    by (auto simp: stored_store3)
  with live_store3 e v show ?thesis
    by simp
qed

text \<open>
  Claim C7, as stated, speaks of every n. On the empty live store, with a provider
  that answers, \<open>query_db("Hello", 0)\<close> raises: the index refuses the number before it
  looks at the collection.
\<close>

theorem query_db_empty_zero_counterexample:
  "live env0 store0 \<and> stored_turns store0 = [] \<and>
   embed env0 (model_name store0) ''Hello'' = Inr 5 \<and>
   query_db env0 ''Hello'' 0 store0 = (Inl InvalidArgument, store0)"
  using live_store0
  by (simp add: query_db_def collection_query_def env0_def) (simp add: stored_turns_def store0_def)

text \<open>
  Claim C7, amended. For every n of at least one and every query text the provider
  embeds, \<open>query_db\<close> on an empty live store returns the empty result (an empty list of
  ids, distances, metadata and documents for its query text) and raises no error.
\<close>

theorem query_db_empty:
  assumes "live env self" and "id_counter self = 0" and "1 \<le> n"
    and "embed env (model_name self) query_text = Inr q"
  shows "query_db env query_text n self =
           (Inr \<lparr>query_ids = [[]], query_distances = [[]], query_metadatas = [[]],
                 query_documents = [[]]\<rparr>, self)"
proof -
  from assms(1) have f: "coll_embedding_function (chat_db self) = model_name self"
    by (simp add: live_def)
  show ?thesis
    using assms(3,4) f stored_turns_live [OF assms(1)] fresh_empty [OF assms(1,2)]
    by (simp add: query_db_def collection_query_def)
qed

theorem query_db_empty_witness:
  "live env0 store0 \<and> id_counter store0 = 0 \<and> (1::int) \<le> 2 \<and>
   embed env0 (model_name store0) ''Hello'' = Inr 5 \<and>
   query_db env0 ''Hello'' 2 store0 =
     (Inr \<lparr>query_ids = [[]], query_distances = [[]], query_metadatas = [[]],
           query_documents = [[]]\<rparr>, store0)"
proof -
  have c: "id_counter store0 = 0"
    by (simp add: store0_def)
  have n: "(1::int) \<le> 2"
    by simp
  have e: "embed env0 (model_name store0) ''Hello'' = Inr 5"
    by (simp add: env0_def)
  from query_db_empty [OF live_store0 c n e] live_store0 c e show ?thesis
    by simp
qed

subsection \<open>The destroyed store\<close>

text \<open>
  Claim C8, as stated, gives every operation on a destroyed store a NotFound error.
  After \<open>clear_db(reinitialize=False)\<close> on the store of three turns,
  \<open>query_db("Food", 0)\<close> fails with the index's refusal of the number, not with
  NotFound: the number is checked before the collection is looked up.
\<close>

theorem query_db_destroyed_counterexample:
  "clear_db env0 False store3 = (Inr (), store_destroyed) \<and> destroyed store_destroyed \<and>
   query_db env0 ''Food'' 0 store_destroyed = (Inl InvalidArgument, store_destroyed)"
  using store_destroyed_eq by (simp add: query_db_def collection_query_def)

text \<open>
  Claim C8, amended. \<open>clear_db(reinitialize=False)\<close> on a live store succeeds and
  leaves the store destroyed. Every later operation on it fails and leaves it as it
  is, so it stays destroyed: \<open>get_all_entries\<close> and \<open>clear_db\<close> (with either flag) fail
  with NotFound, and so do \<open>add_conversation_to_db\<close> for every turn the provider embeds
  and \<open>query_db\<close> for every query text the provider embeds and every \<open>n_results\<close> of
  at least one.
\<close>

theorem clear_db_destroys:
  assumes "live env self"
  shows "\<exists>d. clear_db env False self = (Inr (), d) \<and> destroyed d \<and>
           (\<forall>u a. \<exists>e. add_conversation_to_db env u a d = (Inl e, d)) \<and>
           (\<forall>u a v. embed env (model_name self)
                       (''User: '' @ u @ CHR 0x0A # ''AI: '' @ a) = Inr v \<longrightarrow>
              add_conversation_to_db env u a d = (Inl NotFound, d)) \<and>
           get_all_entries d = (Inl NotFound, d) \<and>
           (\<forall>t n. \<exists>e. query_db env t n d = (Inl e, d)) \<and>
           (\<forall>t n q. 1 \<le> n \<and> embed env (model_name self) t = Inr q \<longrightarrow>
              query_db env t n d = (Inl NotFound, d)) \<and>
           (\<forall>r. clear_db env r d = (Inl NotFound, d))"
proof -
  let ?d = "self\<lparr>client := (client self)(coll_name (chat_db self) := None)\<rparr>"
  from assms obtain c where c: "client self (coll_name (chat_db self)) = Some c"
    by (auto simp: live_def split: option.splits)
  from assms have f: "coll_embedding_function (chat_db self) = model_name self"
    by (simp add: live_def)
  have 1: "clear_db env False self = (Inr (), ?d)"
    using c by (simp add: clear_db_def delete_collection_def)
  have 2: "destroyed ?d"
    by (simp add: destroyed_def)
  have 3: "\<exists>e. add_conversation_to_db env u a ?d = (Inl e, ?d)" for u a
    by (simp add: add_conversation_to_db_def collection_add_def split: sum.splits)
  have 4: "add_conversation_to_db env u a ?d = (Inl NotFound, ?d)"
    if "embed env (model_name self) (''User: '' @ u @ CHR 0x0A # ''AI: '' @ a) = Inr v" for u a v
    using that f
    by (simp add: add_conversation_to_db_def collection_add_def composite_document_def)
  have 5: "get_all_entries ?d = (Inl NotFound, ?d)"
    by (simp add: get_all_entries_def collection_get_def)
  have 6: "\<exists>e. query_db env t n ?d = (Inl e, ?d)" for t n
    by (simp add: query_db_def collection_query_def split: sum.splits)
  have 7: "query_db env t n ?d = (Inl NotFound, ?d)"
    if "1 \<le> n \<and> embed env (model_name self) t = Inr q" for t n q
    using that f by (simp add: query_db_def collection_query_def)
  have 8: "clear_db env r ?d = (Inl NotFound, ?d)" for r
    by (simp add: clear_db_def delete_collection_def)
  show ?thesis
    using 1 2 3 4 5 6 7 8 by (intro exI [of _ ?d]) blast
qed

theorem clear_db_destroys_witness:
  "live env0 store3 \<and>
   clear_db env0 False store3 = (Inr (), store_destroyed) \<and>
   destroyed store_destroyed \<and>
   add_conversation_to_db env0 ''Hi'' ''Hello'' store_destroyed = (Inl NotFound, store_destroyed) \<and>
   get_all_entries store_destroyed = (Inl NotFound, store_destroyed) \<and>
   query_db env0 ''Food'' 2 store_destroyed = (Inl NotFound, store_destroyed) \<and>
   clear_db env0 True store_destroyed = (Inl NotFound, store_destroyed) \<and>
   clear_db env0 False store_destroyed = (Inl NotFound, store_destroyed)"
proof -
  from clear_db_destroys [OF live_store3] obtain d where
    c: "clear_db env0 False store3 = (Inr (), d)" and d: "destroyed d"
    and a: "\<forall>u a v. embed env0 (model_name store3)
                       (''User: '' @ u @ CHR 0x0A # ''AI: '' @ a) = Inr v \<longrightarrow>
              add_conversation_to_db env0 u a d = (Inl NotFound, d)"
    and g: "get_all_entries d = (Inl NotFound, d)"
    and q: "\<forall>t n q. 1 \<le> n \<and> embed env0 (model_name store3) t = Inr q \<longrightarrow>
              query_db env0 t n d = (Inl NotFound, d)"
    and r: "\<forall>r. clear_db env0 r d = (Inl NotFound, d)"
    by blast
  from c have s: "d = store_destroyed"
    by (simp add: store_destroyed_def)
  have e: "embed env0 (model_name store3) (''User: '' @ ''Hi'' @ CHR 0x0A # ''AI: '' @ ''Hello'')
             = Inr 18"
    by (simp add: env0_def)
  have f: "(1::int) \<le> 2 \<and> embed env0 (model_name store3) ''Food'' = Inr 4"
    by (simp add: env0_def)
  from a e have 1: "add_conversation_to_db env0 ''Hi'' ''Hello'' d = (Inl NotFound, d)"
    by blast
  from q f have 2: "query_db env0 ''Food'' 2 d = (Inl NotFound, d)"
    by blast
  from c d g r 1 2 live_store3 show ?thesis
    unfolding s by simp
qed

end
